theory Spec2Isabelle
  imports Main
begin

section \<open>JavaScript values\<close>

text \<open>
  The server is JavaScript: a header that was not sent reads as \<^verbatim>\<open>undefined\<close>, and the
  guards of the code (\<^verbatim>\<open>!afterEventId\<close>, \<^verbatim>\<open>!apiKey\<close>, \<^verbatim>\<open>sessionId && ...\<close>) test
  truthiness, not presence. Primitive values are modelled with the integers for the
  numbers (no fractions, no NaN); on primitives \<^verbatim>\<open>===\<close> is equality of values.
\<close>

datatype prim = JUndefined | JNull | JBool bool | JNum int | JStr string

datatype json = JPrim prim | JArr "json list" | JObj "(string \<times> json) list"

fun truthy :: "prim \<Rightarrow> bool" where
  "truthy JUndefined = False"
| "truthy JNull = False"
| "truthy (JBool b) = b"
| "truthy (JNum n) = (n \<noteq> 0)"
| "truthy (JStr s) = (s \<noteq> [])"

text \<open>An object or an array is truthy, also when it is empty.\<close>

fun truthy_json :: "json \<Rightarrow> bool" where
  "truthy_json (JPrim p) = truthy p"
| "truthy_json (JArr xs) = True"
| "truthy_json (JObj kvs) = True"

text \<open>
  A request header is a string or \<^verbatim>\<open>undefined\<close>: \<open>None\<close> is the header that was not
  sent. The empty string is falsy, so an empty header passes every \<^verbatim>\<open>!h\<close> test of the
  code as a missing one does.
\<close>

fun truthy_header :: "string option \<Rightarrow> bool" where
  "truthy_header None = False"
| "truthy_header (Some s) = (s \<noteq> [])"

section \<open>The event store\<close>

text \<open>
  \<^verbatim>\<open>InMemoryEventStore\<close>: a \<^verbatim>\<open>Map\<close> from session id to the array of that session's
  events. An event is an object with an \<^verbatim>\<open>id\<close>; the store never looks at the rest of it.
  The methods mutate \<^verbatim>\<open>this.events\<close>; here they return the new map.
\<close>

record 'p event =
  event_id :: prim
  payload :: 'p

type_synonym 'p event_store = "string \<rightharpoonup> 'p event list"

text \<open>\<^verbatim>\<open>Array.prototype.findIndex\<close>: the first index whose element passes; \<open>None\<close> for -1.\<close>

fun findIndex :: "('a \<Rightarrow> bool) \<Rightarrow> 'a list \<Rightarrow> nat option" where
  "findIndex P [] = None"
| "findIndex P (x # xs) = (if P x then Some 0 else map_option Suc (findIndex P xs))"

text \<open>\<^verbatim>\<open>this.events.get(sessionId) || []\<close>: an array is truthy, so only a missing key gives \<open>[]\<close>.\<close>

definition sessionEvents :: "'p event_store \<Rightarrow> string \<Rightarrow> 'p event list" where
  "sessionEvents events sessionId = (case events sessionId of None \<Rightarrow> [] | Some es \<Rightarrow> es)"

definition getEventsAfter :: "'p event_store \<Rightarrow> string \<Rightarrow> prim \<Rightarrow> 'p event list" where
  "getEventsAfter events sessionId afterEventId =
     (if \<not> truthy afterEventId then sessionEvents events sessionId
      else (case findIndex (\<lambda>e. event_id e = afterEventId) (sessionEvents events sessionId) of
              None \<Rightarrow> sessionEvents events sessionId
            | Some afterIndex \<Rightarrow> drop (afterIndex + 1) (sessionEvents events sessionId)))"

definition addEvent :: "'p event_store \<Rightarrow> string \<Rightarrow> 'p event \<Rightarrow> 'p event_store" where
  "addEvent events sessionId e =
     (let events1 = (if events sessionId = None then events(sessionId \<mapsto> []) else events)
      in events1(sessionId \<mapsto> sessionEvents events1 sessionId @ [e]))"

definition clearSession :: "'p event_store \<Rightarrow> string \<Rightarrow> 'p event_store" where
  "clearSession events sessionId = events(sessionId := None)"

text \<open>Appending several events, one \<open>addEvent\<close> call after the other.\<close>

fun addEvents :: "'p event_store \<Rightarrow> string \<Rightarrow> 'p event list \<Rightarrow> 'p event_store" where
  "addEvents events sessionId [] = events"
| "addEvents events sessionId (e # es) = addEvents (addEvent events sessionId e) sessionId es"

section \<open>Configuration and HTTP messages\<close>

text \<open>
  \<^verbatim>\<open>config\<close> of \<^verbatim>\<open>config.js\<close>. The three secrets are environment variables with no
  default: \<open>None\<close> is \<^verbatim>\<open>undefined\<close>. \<^verbatim>\<open>config.js\<close> itself calls a key that fails
  \<^verbatim>\<open>!config.mcpApiKey\<close> "not configured", so an empty key is not a configured one.
\<close>

record config =
  apiBaseUrl :: string
  authMode :: string
  apiKeyPods :: "string option"
  jwtToken :: "string option"
  serverPort :: nat
  serverPath :: string
  mcpApiKey :: "string option"

datatype verb = GET | POST | DELETE

text \<open>
  A request as the handlers see it: header names in lower case (as Node delivers them),
  the body already parsed by \<^verbatim>\<open>express.json()\<close>.
\<close>

record http_request =
  req_verb :: verb
  req_path :: string
  req_headers :: "string \<rightharpoonup> string"
  req_body :: json

text \<open>
  What a handler sends. \<open>JsonRpcError c m\<close> is the object
  \<^verbatim>\<open>{jsonrpc: '2.0', error: {code: c, message: m}, id: null}\<close> of \<^verbatim>\<open>res.json\<close>;
  \<open>PlainText\<close> is the argument of \<^verbatim>\<open>res.send\<close>. The other two are what the SDK's
  transport writes: \<open>SdkBody\<close> is a JSON document sent as the whole response, \<open>SdkStream\<close>
  is a \<^verbatim>\<open>text/event-stream\<close> response that is held open.
\<close>

datatype response_body =
    JsonRpcError int string
  | PlainText string
  | SdkBody string
  | SdkStream

text \<open>A response that is one JSON document.\<close>

fun is_json :: "response_body \<Rightarrow> bool" where
  "is_json (JsonRpcError c m) = True"
| "is_json (PlainText s) = False"
| "is_json (SdkBody s) = True"
| "is_json SdkStream = False"

record http_response =
  status :: nat
  body :: response_body

section \<open>The auth gate\<close>

datatype gate = Next | Respond http_response

definition authenticateApiKey :: "config \<Rightarrow> http_request \<Rightarrow> gate" where
  "authenticateApiKey cfg req =
     (if req_path req = serverPath cfg @ ''/health'' \<or> req_path req = ''/'' then Next
      else if \<not> truthy_header (mcpApiKey cfg) then Next
      else
        (let apiKey = req_headers req ''x-api-key'' in
         if \<not> truthy_header apiKey then
           Respond \<lparr>status = 401,
             body = JsonRpcError (- 32001) ''Unauthorized: Missing X-API-Key header''\<rparr>
         else if apiKey \<noteq> mcpApiKey cfg then
           Respond \<lparr>status = 403, body = JsonRpcError (- 32002) ''Forbidden: Invalid API key''\<rparr>
         else Next))"

section \<open>The protocol handlers\<close>

text \<open>
  \<^verbatim>\<open>podsClient\<close> is the backend adapter. Each method is an asynchronous call that
  resolves with the parsed answer or rejects with an \<^verbatim>\<open>Error\<close>; \<open>Inl msg\<close> is the
  rejection, \<open>msg\<close> the error's \<^verbatim>\<open>message\<close>. The handlers are stated for every adapter
  whose calls settle; how long a call takes, and a call that never settles, are outside
  the model.
\<close>

record adapter =
  getPodKeyword :: "string + json"
  updatePodKeyword :: "json \<Rightarrow> string + json"
  getAllPods :: "json \<Rightarrow> string + json"
  getPodByNumber :: "json \<Rightarrow> json \<Rightarrow> string + json"
  createPod :: "json \<Rightarrow> json \<Rightarrow> string + json"
  updatePod :: "json \<Rightarrow> json \<Rightarrow> json \<Rightarrow> string + json"
  deletePod :: "json \<Rightarrow> json \<Rightarrow> string + json"

text \<open>Sequencing of steps that may throw: the first \<open>Inl\<close> ends the block.\<close>

definition and_then :: "'e + 'a \<Rightarrow> ('a \<Rightarrow> 'e + 'b) \<Rightarrow> 'e + 'b" where
  "and_then m f = (case m of Inl e \<Rightarrow> Inl e | Inr v \<Rightarrow> f v)"

text \<open>
  The \<^verbatim>\<open>arguments\<close> of a tool call: the SDK's request schema admits an object or
  nothing, so \<open>None\<close> is \<^verbatim>\<open>undefined\<close>; the list holds each own member of the object
  once. Reading a member of \<^verbatim>\<open>undefined\<close> throws a \<^verbatim>\<open>TypeError\<close>; a member the object
  lacks reads as \<^verbatim>\<open>undefined\<close>.
\<close>

type_synonym arguments = "(string \<times> json) list option"

definition member :: "(string \<times> json) list \<Rightarrow> string \<Rightarrow> json" where
  "member kvs k = (case map_of kvs k of None \<Rightarrow> JPrim JUndefined | Some v \<Rightarrow> v)"

definition cannot_read :: "string \<Rightarrow> string" where
  "cannot_read k =
     ''Cannot read properties of undefined (reading '' @ [CHR 0x27] @ k @ [CHR 0x27] @ '')''"

definition arg :: "arguments \<Rightarrow> string \<Rightarrow> string + json" where
  "arg args k = (case args of None \<Rightarrow> Inl (cannot_read k) | Some kvs \<Rightarrow> Inr (member kvs k))"

text \<open>\<^verbatim>\<open>const { collection, ...podData } = args\<close>.\<close>

definition cannot_destructure :: "string \<Rightarrow> string" where
  "cannot_destructure k =
     ''Cannot destructure property '' @ [CHR 0x27] @ k @ [CHR 0x27] @ '' of ''
       @ [CHR 0x27] @ ''args'' @ [CHR 0x27] @ '' as it is undefined.''"

definition rest_without :: "arguments \<Rightarrow> string \<Rightarrow> string + json \<times> json" where
  "rest_without args k =
     (case args of
        None \<Rightarrow> Inl (cannot_destructure k)
      | Some kvs \<Rightarrow> Inr (member kvs k, JObj (filter (\<lambda>kv. fst kv \<noteq> k) kvs)))"

text \<open>The names of the \<^verbatim>\<open>tools/list\<close> answer, in its order.\<close>

definition listed_tool_names :: "string list" where
  "listed_tool_names =
     [''get_pod_keyword'', ''update_pod_keyword'', ''get_all_pods'', ''get_pod_by_number'',
      ''create_pod'', ''update_pod'', ''delete_pod'']"

record content_item =
  ctype :: string
  ctext :: string

text \<open>A tool result; \<open>isError = False\<close> is the result without the \<^verbatim>\<open>isError\<close> member.\<close>

record tool_result =
  content :: "content_item list"
  isError :: bool

text \<open>
  \<^verbatim>\<open>JSON.stringify(v, null, 2)\<close> is a function of the runtime: the handlers take it as
  the parameter \<open>stringify\<close>.
\<close>

definition text_result :: "(json \<Rightarrow> string) \<Rightarrow> json \<Rightarrow> string + tool_result" where
  "text_result stringify result =
     Inr \<lparr>content = [\<lparr>ctype = ''text'', ctext = stringify result\<rparr>], isError = False\<rparr>"

text \<open>The \<^verbatim>\<open>try\<close> block of the \<^verbatim>\<open>tools/call\<close> handler: \<open>Inl msg\<close> is a thrown error.\<close>

definition callTool_try ::
  "(json \<Rightarrow> string) \<Rightarrow> adapter \<Rightarrow> string \<Rightarrow> arguments \<Rightarrow> string + tool_result" where
  "callTool_try stringify podsClient name args =
     (if name = ''get_pod_keyword'' then
        and_then (getPodKeyword podsClient) (text_result stringify)
      else if name = ''update_pod_keyword'' then
        and_then (arg args ''keyword'') (\<lambda>keyword.
        and_then (updatePodKeyword podsClient keyword) (text_result stringify))
      else if name = ''get_all_pods'' then
        and_then (arg args ''collection'') (\<lambda>collection.
        and_then (getAllPods podsClient collection) (text_result stringify))
      else if name = ''get_pod_by_number'' then
        and_then (arg args ''collection'') (\<lambda>collection.
        and_then (arg args ''number'') (\<lambda>number.
        and_then (getPodByNumber podsClient collection number) (text_result stringify)))
      else if name = ''create_pod'' then
        and_then (rest_without args ''collection'') (\<lambda>(collection, podData).
        and_then (createPod podsClient collection podData) (text_result stringify))
      else if name = ''update_pod'' then
        and_then (arg args ''collection'') (\<lambda>collection.
        and_then (arg args ''number'') (\<lambda>number.
        and_then (arg args ''updates'') (\<lambda>updates.
        and_then (updatePod podsClient collection number updates) (text_result stringify))))
      else if name = ''delete_pod'' then
        and_then (arg args ''collection'') (\<lambda>collection.
        and_then (arg args ''number'') (\<lambda>number.
        and_then (deletePod podsClient collection number) (text_result stringify)))
      else Inl (''Unknown tool: '' @ name))"

text \<open>The \<^verbatim>\<open>catch\<close> block: the error's message, wrapped as a result with \<^verbatim>\<open>isError: true\<close>.\<close>

definition tool_error :: "(json \<Rightarrow> string) \<Rightarrow> string \<Rightarrow> tool_result" where
  "tool_error stringify msg =
     \<lparr>content =
        [\<lparr>ctype = ''text'',
          ctext = stringify (JObj [(''error'', JPrim (JStr msg)),
                    (''details'', JPrim (JStr ''Failed to execute API request.''))])\<rparr>],
      isError = True\<rparr>"

text \<open>
  The handler registered for \<^verbatim>\<open>CallToolRequestSchema\<close>. What it returns (\<open>Inr\<close>) the SDK
  sends as the \<^verbatim>\<open>result\<close> of the JSON-RPC response; what it throws (\<open>Inl\<close>) the SDK
  sends as a JSON-RPC \<^verbatim>\<open>error\<close>.
\<close>

definition CallToolRequest_handler ::
  "(json \<Rightarrow> string) \<Rightarrow> adapter \<Rightarrow> string \<Rightarrow> arguments \<Rightarrow> string + tool_result" where
  "CallToolRequest_handler stringify podsClient name args =
     (case callTool_try stringify podsClient name args of
        Inr r \<Rightarrow> Inr r
      | Inl msg \<Rightarrow> Inr (tool_error stringify msg))"

text \<open>The uris of the \<^verbatim>\<open>resources/list\<close> answer, in its order.\<close>

definition listed_resource_uris :: "string list" where
  "listed_resource_uris = [''pods://keyword'', ''pods://config'']"

record resource_content =
  uri :: string
  mimeType :: string
  rtext :: string

record resource_result =
  contents :: "resource_content list"

definition readResource_try ::
  "(json \<Rightarrow> string) \<Rightarrow> adapter \<Rightarrow> config \<Rightarrow> string \<Rightarrow> string + resource_result" where
  "readResource_try stringify podsClient cfg u =
     (if u = ''pods://keyword'' then
        and_then (getPodKeyword podsClient) (\<lambda>result.
          Inr \<lparr>contents = [\<lparr>uri = u, mimeType = ''application/json'', rtext = stringify result\<rparr>]\<rparr>)
      else if u = ''pods://config'' then
        Inr \<lparr>contents =
          [\<lparr>uri = u, mimeType = ''application/json'',
            rtext = stringify (JObj
              [(''baseUrl'', JPrim (JStr (apiBaseUrl cfg))),
               (''authMode'', JPrim (JStr (authMode cfg))),
               (''hasApiKey'', JPrim (JBool (truthy_header (apiKeyPods cfg)))),
               (''hasJwtToken'', JPrim (JBool (truthy_header (jwtToken cfg)))),
               (''status'', JPrim (JStr ''Connected''))])\<rparr>]\<rparr>
      else Inl (''Unknown resource: '' @ u))"

definition resource_error :: "(json \<Rightarrow> string) \<Rightarrow> string \<Rightarrow> string \<Rightarrow> resource_result" where
  "resource_error stringify u msg =
     \<lparr>contents =
        [\<lparr>uri = u, mimeType = ''application/json'',
          rtext = stringify (JObj [(''error'', JPrim (JStr msg)),
                    (''details'', JPrim (JStr ''Failed to fetch resource.''))])\<rparr>]\<rparr>"

text \<open>The handler registered for \<^verbatim>\<open>ReadResourceRequestSchema\<close>; \<open>Inl\<close> and \<open>Inr\<close> as above.\<close>

definition ReadResourceRequest_handler ::
  "(json \<Rightarrow> string) \<Rightarrow> adapter \<Rightarrow> config \<Rightarrow> string \<Rightarrow> string + resource_result" where
  "ReadResourceRequest_handler stringify podsClient cfg u =
     (case readResource_try stringify podsClient cfg u of
        Inr r \<Rightarrow> Inr r
      | Inl msg \<Rightarrow> Inr (resource_error stringify u msg))"

section \<open>The session registry and the MCP endpoint\<close>

text \<open>
  What \<^verbatim>\<open>new StreamableHTTPServerTransport({...})\<close> is given, and
  \<^verbatim>\<open>transport.sessionId\<close>, which the SDK assigns when the transport handles its
  \<^verbatim>\<open>initialize\<close> request.
\<close>

record transport =
  transport_sessionId :: "string option"
  enableJsonResponse :: bool
  eventStore :: "json event_store"

definition new_transport :: transport where
  "new_transport = \<lparr>transport_sessionId = None, enableJsonResponse = True, eventStore = Map.empty\<rparr>"

text \<open>
  \<^verbatim>\<open>const transports = {}\<close> is a plain object, not a \<^verbatim>\<open>Map\<close>: \<^verbatim>\<open>transports[k]\<close> reads
  an own property, and for a key the object does not own, the member of that name of
  \<^verbatim>\<open>Object.prototype\<close>. The registry below holds the own properties; every inherited
  member is a function or an object, so it is truthy, and none has a \<^verbatim>\<open>handleRequest\<close>.
\<close>

type_synonym registry = "string \<rightharpoonup> transport"

definition object_prototype_names :: "string list" where
  "object_prototype_names =
     [''constructor'', ''__defineGetter__'', ''__defineSetter__'', ''hasOwnProperty'',
      ''__lookupGetter__'', ''__lookupSetter__'', ''isPrototypeOf'', ''propertyIsEnumerable'',
      ''toString'', ''valueOf'', ''__proto__'', ''toLocaleString'']"

datatype 'a property = Absent | Own 'a | Inherited

definition transports_at :: "registry \<Rightarrow> string \<Rightarrow> transport property" where
  "transports_at transports k =
     (case transports k of
        Some t \<Rightarrow> Own t
      | None \<Rightarrow> if k \<in> set object_prototype_names then Inherited else Absent)"

text \<open>
  \<^verbatim>\<open>sessionId && transports[sessionId]\<close>: falsy (\<open>Absent\<close>) when the header is falsy,
  the property otherwise.
\<close>

definition session_transport :: "registry \<Rightarrow> string option \<Rightarrow> transport property" where
  "session_transport transports sessionId =
     (case sessionId of
        None \<Rightarrow> Absent
      | Some s \<Rightarrow> if s = [] then Absent else transports_at transports s)"

text \<open>
  \<^verbatim>\<open>body.method\<close> on a truthy body. The parsed body is an object or an array; a
  member that is missing reads as \<^verbatim>\<open>undefined\<close>.
\<close>

definition get_property :: "json \<Rightarrow> string \<Rightarrow> json" where
  "get_property v k = (case v of JObj kvs \<Rightarrow> member kvs k | _ \<Rightarrow> JPrim JUndefined)"

definition isInitializeRequest :: "json \<Rightarrow> bool" where
  "isInitializeRequest b \<longleftrightarrow>
     truthy_json b \<and> get_property b ''method'' = JPrim (JStr ''initialize'')"

text \<open>
  The SDK is not part of the repository. One call of \<^verbatim>\<open>server.connect\<close> and
  \<^verbatim>\<open>transport.handleRequest\<close> is modelled by what the handlers can observe of it:
  whether it threw, what it sent (nothing sent: \<^verbatim>\<open>res.headersSent\<close> is false), whether
  it called \<^verbatim>\<open>onsessioninitialized\<close> (with the id its \<^verbatim>\<open>sessionIdGenerator\<close> gave), and
  whether it called \<^verbatim>\<open>onclose\<close>. The handlers are stated for every such behaviour.
\<close>

record sdk_outcome =
  sdk_threw :: bool
  sdk_sent :: "http_response option"
  sdk_initialized :: "string option"
  sdk_closed :: bool

type_synonym sdk = "transport \<Rightarrow> http_request \<Rightarrow> sdk_outcome"

text \<open>
  Modelled from the spec: the SDK's \<^verbatim>\<open>StreamableHTTPServerTransport\<close>, whose
  \<^verbatim>\<open>handleRequest\<close> writes the answer to a POST, is not among the sources. The
  specification says of the response mode \<^verbatim>\<open>json\<close> that "each request gets a single
  synchronous JSON response rather than being held open as a stream". An SDK honours the
  mode when, for every transport constructed with \<^verbatim>\<open>enableJsonResponse\<close> and every POST,
  what it sends is one JSON document, and it sends nothing only when it throws.
\<close>

definition honours_json_mode :: "sdk \<Rightarrow> bool" where
  "honours_json_mode sdk \<longleftrightarrow>
     (\<forall>t req. enableJsonResponse t \<and> req_verb req = POST \<longrightarrow>
        (case sdk_sent (sdk t req) of
           None \<Rightarrow> sdk_threw (sdk t req)
         | Some r \<Rightarrow> is_json (body r)))"

definition onsessioninitialized :: "registry \<Rightarrow> transport \<Rightarrow> string \<Rightarrow> registry" where
  "onsessioninitialized transports t sid = transports(sid \<mapsto> t\<lparr>transport_sessionId := Some sid\<rparr>)"

definition onclose :: "registry \<Rightarrow> transport \<Rightarrow> registry" where
  "onclose transports t =
     (case session_transport transports (transport_sessionId t) of
        Absent \<Rightarrow> transports
      | _ \<Rightarrow> (case transport_sessionId t of None \<Rightarrow> transports | Some sid \<Rightarrow> transports(sid := None)))"

definition after_sdk :: "registry \<Rightarrow> transport \<Rightarrow> sdk_outcome \<Rightarrow> registry" where
  "after_sdk transports t out =
     (let t1 = (case sdk_initialized out of None \<Rightarrow> t | Some sid \<Rightarrow> t\<lparr>transport_sessionId := Some sid\<rparr>);
          transports1 = (case sdk_initialized out of
                           None \<Rightarrow> transports
                         | Some sid \<Rightarrow> onsessioninitialized transports t sid)
      in if sdk_closed out then onclose transports1 t1 else transports1)"

text \<open>
  What one request did: the response sent (if any), the registry afterwards, the
  transport this request constructed (if any), and whether the handler's promise was
  rejected with nothing to catch it.
\<close>

record handled =
  response :: "http_response option"
  registry_after :: registry
  created :: "transport option"
  unhandled :: bool

definition bad_request :: http_response where
  "bad_request =
     \<lparr>status = 400, body = JsonRpcError (- 32000) ''Bad Request: No valid session ID provided''\<rparr>"

definition internal_error :: http_response where
  "internal_error = \<lparr>status = 500, body = JsonRpcError (- 32603) ''Internal server error''\<rparr>"

definition invalid_session :: http_response where
  "invalid_session = \<lparr>status = 400, body = PlainText ''Invalid or missing session ID''\<rparr>"

definition termination_error :: http_response where
  "termination_error = \<lparr>status = 500, body = PlainText ''Error processing session termination''\<rparr>"

text \<open>\<^verbatim>\<open>catch (error) { if (!res.headersSent) res.status(500)... }\<close>.\<close>

definition caught :: "sdk_outcome \<Rightarrow> http_response \<Rightarrow> http_response option" where
  "caught out fallback =
     (if sdk_threw out \<and> sdk_sent out = None then Some fallback else sdk_sent out)"

text \<open>
  \<^verbatim>\<open>app.post(`${config.serverPath}/mcp`, ...)\<close>. With an inherited member for a transport,
  \<^verbatim>\<open>transport.handleRequest\<close> is not a function: the call throws inside the \<^verbatim>\<open>try\<close>.
\<close>

definition postMcp :: "sdk \<Rightarrow> registry \<Rightarrow> http_request \<Rightarrow> handled" where
  "postMcp sdk transports req =
     (let sessionId = req_headers req ''mcp-session-id'' in
      case session_transport transports sessionId of
        Own t \<Rightarrow>
          \<lparr>response = caught (sdk t req) internal_error,
            registry_after = after_sdk transports t (sdk t req),
            created = None, unhandled = False\<rparr>
      | Inherited \<Rightarrow>
          \<lparr>response = Some internal_error, registry_after = transports,
            created = None, unhandled = False\<rparr>
      | Absent \<Rightarrow>
          if \<not> truthy_header sessionId \<and> isInitializeRequest (req_body req) then
            \<lparr>response = caught (sdk new_transport req) internal_error,
              registry_after = after_sdk transports new_transport (sdk new_transport req),
              created = Some new_transport, unhandled = False\<rparr>
          else
            \<lparr>response = Some bad_request, registry_after = transports,
              created = None, unhandled = False\<rparr>)"

text \<open>
  \<^verbatim>\<open>app.get(`${config.serverPath}/mcp`, ...)\<close>: no \<^verbatim>\<open>try\<close> around the SDK's call, so
  what is thrown there rejects the handler's promise and is left to Express.
\<close>

definition getMcp :: "sdk \<Rightarrow> registry \<Rightarrow> http_request \<Rightarrow> handled" where
  "getMcp sdk transports req =
     (let sessionId = req_headers req ''mcp-session-id'' in
      case session_transport transports sessionId of
        Absent \<Rightarrow>
          \<lparr>response = Some invalid_session, registry_after = transports,
            created = None, unhandled = False\<rparr>
      | Own t \<Rightarrow>
          \<lparr>response = sdk_sent (sdk t req),
            registry_after = after_sdk transports t (sdk t req),
            created = None, unhandled = sdk_threw (sdk t req)\<rparr>
      | Inherited \<Rightarrow>
          \<lparr>response = None, registry_after = transports, created = None, unhandled = True\<rparr>)"

text \<open>\<^verbatim>\<open>app.delete(`${config.serverPath}/mcp`, ...)\<close>.\<close>

definition deleteMcp :: "sdk \<Rightarrow> registry \<Rightarrow> http_request \<Rightarrow> handled" where
  "deleteMcp sdk transports req =
     (let sessionId = req_headers req ''mcp-session-id'' in
      case session_transport transports sessionId of
        Absent \<Rightarrow>
          \<lparr>response = Some invalid_session, registry_after = transports,
            created = None, unhandled = False\<rparr>
      | Own t \<Rightarrow>
          \<lparr>response = caught (sdk t req) termination_error,
            registry_after = after_sdk transports t (sdk t req),
            created = None, unhandled = False\<rparr>
      | Inherited \<Rightarrow>
          \<lparr>response = Some termination_error, registry_after = transports,
            created = None, unhandled = False\<rparr>)"

text \<open>A request routed to the MCP endpoint, and a run of such requests from a registry.\<close>

definition mcp_endpoint :: "sdk \<Rightarrow> registry \<Rightarrow> http_request \<Rightarrow> handled" where
  "mcp_endpoint sdk transports req =
     (case req_verb req of
        POST \<Rightarrow> postMcp sdk transports req
      | GET \<Rightarrow> getMcp sdk transports req
      | DELETE \<Rightarrow> deleteMcp sdk transports req)"

fun serve :: "sdk \<Rightarrow> registry \<Rightarrow> http_request list \<Rightarrow> registry" where
  "serve sdk transports [] = transports"
| "serve sdk transports (req # reqs) =
     serve sdk (registry_after (mcp_endpoint sdk transports req)) reqs"

section \<open>Example inputs\<close>

text \<open>
  Inputs at which the theorems below are evaluated: the configuration of \<^verbatim>\<open>config.js\<close>
  with and without \<^verbatim>\<open>MCP_API_KEY\<close>, a request, an adapter whose every call is rejected,
  a \<open>stringify\<close>, an SDK that neither answers nor calls back, one that answers and
  does not call back, the transport of a registered session \<^verbatim>\<open>s1\<close>, the body of a
  \<^verbatim>\<open>resources/read\<close> request for an unknown uri, and an SDK that answers an
  \<^verbatim>\<open>initialize\<close> and announces the session id \<^verbatim>\<open>s1\<close>.
\<close>

abbreviation (input) keyed_config :: config where
  "keyed_config \<equiv>
     \<lparr>apiBaseUrl = ''http://apigateway.cxocoe.us'', authMode = ''apikey'',
      apiKeyPods = None, jwtToken = None, serverPort = 1013,
      serverPath = ''/CiscoMCPPods'', mcpApiKey = Some ''K''\<rparr>"

abbreviation (input) open_config :: config where
  "open_config \<equiv>
     \<lparr>apiBaseUrl = ''http://apigateway.cxocoe.us'', authMode = ''apikey'',
      apiKeyPods = None, jwtToken = None, serverPort = 1013,
      serverPath = ''/CiscoMCPPods'', mcpApiKey = None\<rparr>"

abbreviation (input) request_to ::
  "verb \<Rightarrow> string \<Rightarrow> (string \<rightharpoonup> string) \<Rightarrow> json \<Rightarrow> http_request" where
  "request_to v p hs b \<equiv> \<lparr>req_verb = v, req_path = p, req_headers = hs, req_body = b\<rparr>"

abbreviation (input) failing_adapter :: adapter where
  "failing_adapter \<equiv>
     \<lparr>getPodKeyword = Inl ''fetch failed'',
      updatePodKeyword = (\<lambda>keyword. Inl ''fetch failed''),
      getAllPods = (\<lambda>collection. Inl ''fetch failed''),
      getPodByNumber = (\<lambda>collection number. Inl ''fetch failed''),
      createPod = (\<lambda>collection podData. Inl ''fetch failed''),
      updatePod = (\<lambda>collection number updates. Inl ''fetch failed''),
      deletePod = (\<lambda>collection number. Inl ''fetch failed'')\<rparr>"

abbreviation (input) braces :: "json \<Rightarrow> string" where
  "braces \<equiv> (\<lambda>v. ''{}'')"

abbreviation (input) quiet_sdk :: sdk where
  "quiet_sdk \<equiv>
     (\<lambda>t req. \<lparr>sdk_threw = False, sdk_sent = None, sdk_initialized = None, sdk_closed = False\<rparr>)"

abbreviation (input) answering_sdk :: sdk where
  "answering_sdk \<equiv>
     (\<lambda>t req. \<lparr>sdk_threw = False, sdk_sent = Some \<lparr>status = 200, body = SdkBody ''{}''\<rparr>,
                sdk_initialized = None, sdk_closed = False\<rparr>)"

abbreviation (input) session_s1 :: transport where
  "session_s1 \<equiv> new_transport\<lparr>transport_sessionId := Some ''s1''\<rparr>"

abbreviation (input) read_nope :: json where
  "read_nope \<equiv>
     JObj [(''jsonrpc'', JPrim (JStr ''2.0'')), (''id'', JPrim (JNum 7)),
           (''method'', JPrim (JStr ''resources/read'')),
           (''params'', JObj [(''uri'', JPrim (JStr ''pods://nope''))])]"

abbreviation (input) initializing_sdk :: sdk where
  "initializing_sdk \<equiv>
     (\<lambda>t req. \<lparr>sdk_threw = False, sdk_sent = Some \<lparr>status = 200, body = SdkBody ''{}''\<rparr>,
                sdk_initialized = Some ''s1'', sdk_closed = False\<rparr>)"

section \<open>Replay from the event store\<close>

lemma findIndex_None: "findIndex P xs = None \<longleftrightarrow> (\<forall>x \<in> set xs. \<not> P x)"
  by (induction xs) auto

lemma findIndex_first:
  "P x \<Longrightarrow> \<forall>y \<in> set pre. \<not> P y \<Longrightarrow> findIndex P (pre @ x # post) = Some (length pre)"
  by (induction pre) auto

text \<open>
  C2, as amended. \<open>getEventsAfter\<close> tests the id it is given for truthiness, so an id
  that is \<^verbatim>\<open>0\<close>, \<^verbatim>\<open>''\<close>, \<^verbatim>\<open>false\<close> or \<^verbatim>\<open>null\<close> is treated as no id at all. For every
  session's log and every truthy id \<open>X\<close>: when the log is \<open>pre @ e # post\<close> with \<open>e\<close> the
  first event whose id is \<open>X\<close>, the replay returns \<open>post\<close>, the events strictly after \<open>e\<close>
  in stored order. When \<open>X\<close> is falsy (not supplied, or one of the falsy values), or no
  stored event has the id \<open>X\<close>, the replay returns the full log unchanged.
\<close>

theorem getEventsAfter_suffix_after_truthy_id:
  "(truthy X \<and> sessionEvents st sid = pre @ e # post \<and> event_id e = X \<and> X \<notin> event_id ` set pre
      \<longrightarrow> getEventsAfter st sid X = post)
   \<and> (\<not> truthy X \<or> X \<notin> event_id ` set (sessionEvents st sid)
      \<longrightarrow> getEventsAfter st sid X = sessionEvents st sid)"
proof (intro conjI impI)
  assume a: "truthy X \<and> sessionEvents st sid = pre @ e # post \<and> event_id e = X
    \<and> X \<notin> event_id ` set pre"
  then have "findIndex (\<lambda>e. event_id e = X) (pre @ e # post) = Some (length pre)"
    by (intro findIndex_first) (auto simp: image_iff)
  with a show "getEventsAfter st sid X = post"
    by (simp add: getEventsAfter_def)
next
  assume "\<not> truthy X \<or> X \<notin> event_id ` set (sessionEvents st sid)"
  then show "getEventsAfter st sid X = sessionEvents st sid"
  proof
    assume "\<not> truthy X"
    then show ?thesis by (simp add: getEventsAfter_def)
  next
    assume "X \<notin> event_id ` set (sessionEvents st sid)"
    then have "findIndex (\<lambda>e. event_id e = X) (sessionEvents st sid) = None"
      by (auto simp: findIndex_None)
    then show ?thesis by (simp add: getEventsAfter_def)
  qed
qed

text \<open>
  The theorem at a log of three events, replayed after the second; and at a log of one
  event, replayed after an id it never received.
\<close>

theorem getEventsAfter_suffix_witness:
  "truthy (JStr ''e2'')
   \<and> sessionEvents (Map.empty(''s'' \<mapsto> [\<lparr>event_id = JStr ''e1'', payload = ''a''\<rparr>,
         \<lparr>event_id = JStr ''e2'', payload = ''b''\<rparr>, \<lparr>event_id = JStr ''e3'', payload = ''c''\<rparr>])) ''s''
       = [\<lparr>event_id = JStr ''e1'', payload = ''a''\<rparr>] @ \<lparr>event_id = JStr ''e2'', payload = ''b''\<rparr>
           # [\<lparr>event_id = JStr ''e3'', payload = ''c''\<rparr>]
   \<and> getEventsAfter (Map.empty(''s'' \<mapsto> [\<lparr>event_id = JStr ''e1'', payload = ''a''\<rparr>,
         \<lparr>event_id = JStr ''e2'', payload = ''b''\<rparr>, \<lparr>event_id = JStr ''e3'', payload = ''c''\<rparr>])) ''s''
         (JStr ''e2'')
       = [\<lparr>event_id = JStr ''e3'', payload = ''c''\<rparr>]
   \<and> JStr ''zz'' \<notin> event_id `
         set (sessionEvents (Map.empty(''s'' \<mapsto> [\<lparr>event_id = JStr ''e1'', payload = ''a''\<rparr>])) ''s'')
   \<and> getEventsAfter (Map.empty(''s'' \<mapsto> [\<lparr>event_id = JStr ''e1'', payload = ''a''\<rparr>])) ''s''
         (JStr ''zz'')
       = [\<lparr>event_id = JStr ''e1'', payload = ''a''\<rparr>]"
  using getEventsAfter_suffix_after_truthy_id
      [of "JStr ''e2''"
          "Map.empty(''s'' \<mapsto> [\<lparr>event_id = JStr ''e1'', payload = ''a''\<rparr>,
             \<lparr>event_id = JStr ''e2'', payload = ''b''\<rparr>, \<lparr>event_id = JStr ''e3'', payload = ''c''\<rparr>])"
          "''s''" "[\<lparr>event_id = JStr ''e1'', payload = ''a''\<rparr>]"
          "\<lparr>event_id = JStr ''e2'', payload = ''b''\<rparr>" "[\<lparr>event_id = JStr ''e3'', payload = ''c''\<rparr>]"]
    getEventsAfter_suffix_after_truthy_id
      [of "JStr ''zz''" "Map.empty(''s'' \<mapsto> [\<lparr>event_id = JStr ''e1'', payload = ''a''\<rparr>])" "''s''"]
  by (simp add: sessionEvents_def)

text \<open>
  C2 as stated fails at the id \<^verbatim>\<open>0\<close>: the log holds the events with ids 0 and 1, the
  caller supplies 0 as the last id it received, and the replay returns both events, not
  the one event after the event with id 0.
\<close>

theorem getEventsAfter_zero_id_counterexample:
  "getEventsAfter (Map.empty(''s'' \<mapsto> [\<lparr>event_id = JNum 0, payload = ''a''\<rparr>,
        \<lparr>event_id = JNum 1, payload = ''b''\<rparr>])) ''s'' (JNum 0)
     = [\<lparr>event_id = JNum 0, payload = ''a''\<rparr>, \<lparr>event_id = JNum 1, payload = ''b''\<rparr>]
   \<and> getEventsAfter (Map.empty(''s'' \<mapsto> [\<lparr>event_id = JNum 0, payload = ''a''\<rparr>,
        \<lparr>event_id = JNum 1, payload = ''b''\<rparr>])) ''s'' (JNum 0)
     \<noteq> [\<lparr>event_id = JNum 1, payload = ''b''\<rparr>]"
  by (simp add: getEventsAfter_def sessionEvents_def)

section \<open>Appending to the event store\<close>

lemma sessionEvents_addEvent:
  "sessionEvents (addEvent st sid e) sid' =
     (if sid' = sid then sessionEvents st sid @ [e] else sessionEvents st sid')"
  by (simp add: addEvent_def sessionEvents_def Let_def)

lemma sessionEvents_addEvents:
  "sessionEvents (addEvents st sid es) sid' =
     (if sid' = sid then sessionEvents st sid @ es else sessionEvents st sid')"
  by (induction es arbitrary: st) (simp_all add: sessionEvents_addEvent)

text \<open>
  C7, as amended. \<open>addEvent\<close> assigns no id: it stores the event it is given, unchanged,
  at the end of the session's log. After appending the events \<open>es\<close> to a session, its log
  is the old log followed by \<open>es\<close>; the ids of a new session's log are the ids the callers
  supplied, in append order, so they are strictly increasing (for any order \<open>lt\<close>), and
  free of repeats, exactly when the supplied ids are.
\<close>

theorem addEvents_stores_supplied_ids:
  "sessionEvents (addEvents st sid es) sid = sessionEvents st sid @ es
   \<and> map event_id (sessionEvents (addEvents Map.empty sid es) sid) = map event_id es
   \<and> sorted_wrt lt (map event_id (sessionEvents (addEvents Map.empty sid es) sid))
       = sorted_wrt lt (map event_id es)
   \<and> distinct (map event_id (sessionEvents (addEvents Map.empty sid es) sid))
       = distinct (map event_id es)"
  by (simp add: sessionEvents_addEvents) (simp add: sessionEvents_def)

text \<open>
  C7 as stated fails when a caller appends two events with the same id: both are stored,
  and the session's ids repeat.
\<close>

theorem addEvent_reused_id_counterexample:
  "map event_id (sessionEvents (addEvents Map.empty ''s''
       [\<lparr>event_id = JNum 1, payload = ''a''\<rparr>, \<lparr>event_id = JNum 1, payload = ''b''\<rparr>]) ''s'')
     = [JNum 1, JNum 1]
   \<and> \<not> distinct (map event_id (sessionEvents (addEvents Map.empty ''s''
       [\<lparr>event_id = JNum 1, payload = ''a''\<rparr>, \<lparr>event_id = JNum 1, payload = ''b''\<rparr>]) ''s''))"
  by (simp add: addEvent_def sessionEvents_def Let_def)

section \<open>The auth gate decides\<close>

text \<open>
  C4. A key is configured when \<^verbatim>\<open>MCP_API_KEY\<close> is set to a non-empty string, and a
  request carries the API-key header when \<^verbatim>\<open>x-api-key\<close> is sent with a non-empty value:
  these are the tests of the code (\<^verbatim>\<open>!config.mcpApiKey\<close>, \<^verbatim>\<open>!apiKey\<close>), and its own
  messages call what fails them "not configured" and "Missing X-API-Key header". For
  every configuration and request: with no key configured the gate passes the request;
  the health path and the root path pass unconditionally; with a key configured, a
  request to any other path that carries no API-key header is answered 401 with the
  JSON-RPC error code -32001, one that carries a different value is answered 403 with
  the code -32002, and one that carries exactly the key passes.
\<close>

theorem authenticateApiKey_gate:
  "(\<not> truthy_header (mcpApiKey cfg) \<longrightarrow> authenticateApiKey cfg req = Next)
   \<and> (req_path req = serverPath cfg @ ''/health'' \<or> req_path req = ''/''
        \<longrightarrow> authenticateApiKey cfg req = Next)
   \<and> (truthy_header (mcpApiKey cfg)
        \<and> req_path req \<noteq> serverPath cfg @ ''/health'' \<and> req_path req \<noteq> ''/''
        \<and> \<not> truthy_header (req_headers req ''x-api-key'')
        \<longrightarrow> authenticateApiKey cfg req
            = Respond \<lparr>status = 401,
                body = JsonRpcError (- 32001) ''Unauthorized: Missing X-API-Key header''\<rparr>)
   \<and> (truthy_header (mcpApiKey cfg)
        \<and> req_path req \<noteq> serverPath cfg @ ''/health'' \<and> req_path req \<noteq> ''/''
        \<and> truthy_header (req_headers req ''x-api-key'')
        \<and> req_headers req ''x-api-key'' \<noteq> mcpApiKey cfg
        \<longrightarrow> authenticateApiKey cfg req
            = Respond \<lparr>status = 403, body = JsonRpcError (- 32002) ''Forbidden: Invalid API key''\<rparr>)
   \<and> (truthy_header (mcpApiKey cfg) \<and> req_headers req ''x-api-key'' = mcpApiKey cfg
        \<longrightarrow> authenticateApiKey cfg req = Next)"
  by (simp add: authenticateApiKey_def Let_def)

text \<open>
  The theorem at the scenario of the specification: no key configured; then the key
  \<^verbatim>\<open>K\<close>, with the health path, the root path, a POST without the header, with the value
  \<^verbatim>\<open>wrong\<close>, and with \<^verbatim>\<open>K\<close>.
\<close>

theorem authenticateApiKey_gate_witness:
  "\<not> truthy_header (mcpApiKey open_config)
   \<and> authenticateApiKey open_config (request_to POST ''/CiscoMCPPods/mcp'' Map.empty (JObj [])) = Next
   \<and> authenticateApiKey keyed_config (request_to GET ''/CiscoMCPPods/health'' Map.empty (JObj [])) = Next
   \<and> authenticateApiKey keyed_config (request_to GET ''/'' Map.empty (JObj [])) = Next
   \<and> truthy_header (mcpApiKey keyed_config)
   \<and> \<not> truthy_header (req_headers (request_to POST ''/CiscoMCPPods/mcp'' Map.empty (JObj [])) ''x-api-key'')
   \<and> authenticateApiKey keyed_config (request_to POST ''/CiscoMCPPods/mcp'' Map.empty (JObj []))
       = Respond \<lparr>status = 401,
           body = JsonRpcError (- 32001) ''Unauthorized: Missing X-API-Key header''\<rparr>
   \<and> authenticateApiKey keyed_config
         (request_to POST ''/CiscoMCPPods/mcp'' [''x-api-key'' \<mapsto> ''wrong''] (JObj []))
       = Respond \<lparr>status = 403, body = JsonRpcError (- 32002) ''Forbidden: Invalid API key''\<rparr>
   \<and> authenticateApiKey keyed_config
         (request_to POST ''/CiscoMCPPods/mcp'' [''x-api-key'' \<mapsto> ''K''] (JObj [])) = Next"
  using authenticateApiKey_gate [of open_config "request_to POST ''/CiscoMCPPods/mcp'' Map.empty (JObj [])"]
    authenticateApiKey_gate [of keyed_config "request_to GET ''/CiscoMCPPods/health'' Map.empty (JObj [])"]
    authenticateApiKey_gate [of keyed_config "request_to GET ''/'' Map.empty (JObj [])"]
    authenticateApiKey_gate [of keyed_config "request_to POST ''/CiscoMCPPods/mcp'' Map.empty (JObj [])"]
    authenticateApiKey_gate [of keyed_config
      "request_to POST ''/CiscoMCPPods/mcp'' [''x-api-key'' \<mapsto> ''wrong''] (JObj [])"]
    authenticateApiKey_gate [of keyed_config
      "request_to POST ''/CiscoMCPPods/mcp'' [''x-api-key'' \<mapsto> ''K''] (JObj [])"]
  by simp

section \<open>Errors of a tool call\<close>

lemma handler_of_throw:
  "callTool_try sf pc name args = Inl msg \<Longrightarrow>
   CallToolRequest_handler sf pc name args = Inr (tool_error sf msg)"
  by (simp add: CallToolRequest_handler_def)

lemma handler_returns: "\<exists>r. CallToolRequest_handler sf pc name args = Inr r"
  by (simp add: CallToolRequest_handler_def split: sum.split)

lemma unknown_tool_throws:
  "name \<notin> set listed_tool_names \<Longrightarrow>
   callTool_try sf pc name args = Inl (''Unknown tool: '' @ name)"
  by (simp add: callTool_try_def listed_tool_names_def)

text \<open>
  C3. For every adapter, tool name and arguments the \<^verbatim>\<open>tools/call\<close> handler returns a
  result and never throws, so the SDK answers with a JSON-RPC success envelope. For a
  name that is not in the tool catalog the result is the error result of the message
  \<^verbatim>\<open>Unknown tool: <name>\<close>. Whatever is thrown inside the handler's \<^verbatim>\<open>try\<close> block
  becomes the error result of the thrown message; in particular, for each of the seven
  registered tools, the rejection of the adapter's call. An error result has
  \<^verbatim>\<open>isError: true\<close> and one text item, the JSON of the message and a fixed detail line.
\<close>

theorem tools_call_errors_are_results:
  "(\<exists>r. CallToolRequest_handler sf pc name args = Inr r)
   \<and> (name \<notin> set listed_tool_names \<longrightarrow>
        CallToolRequest_handler sf pc name args = Inr (tool_error sf (''Unknown tool: '' @ name)))
   \<and> (callTool_try sf pc name args = Inl msg \<longrightarrow>
        CallToolRequest_handler sf pc name args = Inr (tool_error sf msg))
   \<and> (getPodKeyword pc = Inl msg \<longrightarrow>
        CallToolRequest_handler sf pc ''get_pod_keyword'' args = Inr (tool_error sf msg))
   \<and> (updatePodKeyword pc (member kvs ''keyword'') = Inl msg \<longrightarrow>
        CallToolRequest_handler sf pc ''update_pod_keyword'' (Some kvs) = Inr (tool_error sf msg))
   \<and> (getAllPods pc (member kvs ''collection'') = Inl msg \<longrightarrow>
        CallToolRequest_handler sf pc ''get_all_pods'' (Some kvs) = Inr (tool_error sf msg))
   \<and> (getPodByNumber pc (member kvs ''collection'') (member kvs ''number'') = Inl msg \<longrightarrow>
        CallToolRequest_handler sf pc ''get_pod_by_number'' (Some kvs) = Inr (tool_error sf msg))
   \<and> (createPod pc (member kvs ''collection'')
          (JObj (filter (\<lambda>kv. fst kv \<noteq> ''collection'') kvs)) = Inl msg \<longrightarrow>
        CallToolRequest_handler sf pc ''create_pod'' (Some kvs) = Inr (tool_error sf msg))
   \<and> (updatePod pc (member kvs ''collection'') (member kvs ''number'') (member kvs ''updates'')
          = Inl msg \<longrightarrow>
        CallToolRequest_handler sf pc ''update_pod'' (Some kvs) = Inr (tool_error sf msg))
   \<and> (deletePod pc (member kvs ''collection'') (member kvs ''number'') = Inl msg \<longrightarrow>
        CallToolRequest_handler sf pc ''delete_pod'' (Some kvs) = Inr (tool_error sf msg))
   \<and> isError (tool_error sf msg)
   \<and> content (tool_error sf msg)
       = [\<lparr>ctype = ''text'',
           ctext = sf (JObj [(''error'', JPrim (JStr msg)),
                     (''details'', JPrim (JStr ''Failed to execute API request.''))])\<rparr>]"
proof -
  have throws: "\<And>nm a. callTool_try sf pc nm a = Inl msg \<Longrightarrow>
      CallToolRequest_handler sf pc nm a = Inr (tool_error sf msg)"
    by (rule handler_of_throw)
  show ?thesis
    apply (intro conjI impI)
               apply (rule handler_returns)
              apply (simp add: handler_of_throw unknown_tool_throws)
             apply (erule throws)
            apply (rule throws, simp add: callTool_try_def and_then_def)
           apply (rule throws, simp add: callTool_try_def and_then_def arg_def)
          apply (rule throws, simp add: callTool_try_def and_then_def arg_def)
         apply (rule throws, simp add: callTool_try_def and_then_def arg_def)
        apply (rule throws, simp add: callTool_try_def and_then_def rest_without_def)
       apply (rule throws, simp add: callTool_try_def and_then_def arg_def)
      apply (rule throws, simp add: callTool_try_def and_then_def arg_def)
     apply (simp add: tool_error_def)
    apply (simp add: tool_error_def)
    done
qed

text \<open>
  The theorem at the name \<^verbatim>\<open>nonexistent_tool\<close>, and at an adapter whose every call is
  rejected with \<^verbatim>\<open>fetch failed\<close>, for each registered tool.
\<close>

theorem tools_call_errors_witness:
  "''nonexistent_tool'' \<notin> set listed_tool_names
   \<and> callTool_try braces failing_adapter ''nonexistent_tool'' None
       = Inl ''Unknown tool: nonexistent_tool''
   \<and> CallToolRequest_handler braces failing_adapter ''nonexistent_tool'' None
       = Inr (tool_error braces ''Unknown tool: nonexistent_tool'')
   \<and> getPodKeyword failing_adapter = Inl ''fetch failed''
   \<and> CallToolRequest_handler braces failing_adapter ''get_pod_keyword'' None
       = Inr (tool_error braces ''fetch failed'')
   \<and> updatePodKeyword failing_adapter (member [(''collection'', JPrim (JStr ''testpods''))] ''keyword'')
       = Inl ''fetch failed''
   \<and> CallToolRequest_handler braces failing_adapter ''update_pod_keyword''
        (Some [(''collection'', JPrim (JStr ''testpods''))])
       = Inr (tool_error braces ''fetch failed'')
   \<and> getAllPods failing_adapter (member [(''collection'', JPrim (JStr ''testpods''))] ''collection'')
       = Inl ''fetch failed''
   \<and> CallToolRequest_handler braces failing_adapter ''get_all_pods''
        (Some [(''collection'', JPrim (JStr ''testpods''))])
       = Inr (tool_error braces ''fetch failed'')
   \<and> getPodByNumber failing_adapter (member [(''collection'', JPrim (JStr ''testpods''))] ''collection'')
        (member [(''collection'', JPrim (JStr ''testpods''))] ''number'') = Inl ''fetch failed''
   \<and> CallToolRequest_handler braces failing_adapter ''get_pod_by_number''
        (Some [(''collection'', JPrim (JStr ''testpods''))])
       = Inr (tool_error braces ''fetch failed'')
   \<and> createPod failing_adapter (member [(''collection'', JPrim (JStr ''testpods''))] ''collection'')
        (JObj (filter (\<lambda>kv. fst kv \<noteq> ''collection'') [(''collection'', JPrim (JStr ''testpods''))]))
       = Inl ''fetch failed''
   \<and> CallToolRequest_handler braces failing_adapter ''create_pod''
        (Some [(''collection'', JPrim (JStr ''testpods''))])
       = Inr (tool_error braces ''fetch failed'')
   \<and> updatePod failing_adapter (member [(''collection'', JPrim (JStr ''testpods''))] ''collection'')
        (member [(''collection'', JPrim (JStr ''testpods''))] ''number'')
        (member [(''collection'', JPrim (JStr ''testpods''))] ''updates'') = Inl ''fetch failed''
   \<and> CallToolRequest_handler braces failing_adapter ''update_pod''
        (Some [(''collection'', JPrim (JStr ''testpods''))])
       = Inr (tool_error braces ''fetch failed'')
   \<and> deletePod failing_adapter (member [(''collection'', JPrim (JStr ''testpods''))] ''collection'')
        (member [(''collection'', JPrim (JStr ''testpods''))] ''number'') = Inl ''fetch failed''
   \<and> CallToolRequest_handler braces failing_adapter ''delete_pod''
        (Some [(''collection'', JPrim (JStr ''testpods''))])
       = Inr (tool_error braces ''fetch failed'')
   \<and> isError (tool_error braces ''fetch failed'')"
  using tools_call_errors_are_results
      [of braces failing_adapter "''nonexistent_tool''" None "''Unknown tool: nonexistent_tool''"
          "[(''collection'', JPrim (JStr ''testpods''))]"]
    tools_call_errors_are_results
      [of braces failing_adapter "''get_pod_keyword''" None "''fetch failed''"
          "[(''collection'', JPrim (JStr ''testpods''))]"]
  by (simp add: listed_tool_names_def callTool_try_def)

section \<open>Reading an unknown resource\<close>

lemma session_transport_registered:
  "sid \<noteq> [] \<Longrightarrow> ts sid = Some t \<Longrightarrow> session_transport ts (Some sid) = Own t"
  by (simp add: session_transport_def transports_at_def)

lemma after_sdk_keeps_session:
  "ts sid = Some t \<Longrightarrow> \<not> sdk_closed out \<Longrightarrow> after_sdk ts t0 out sid \<noteq> None"
  by (simp add: after_sdk_def Let_def onsessioninitialized_def split: option.splits)

lemma after_sdk_unchanged:
  "\<not> sdk_closed out \<Longrightarrow> sdk_initialized out = None \<Longrightarrow> after_sdk ts t0 out = ts"
  by (simp add: after_sdk_def Let_def)

text \<open>
  C6, as amended. For every \<^verbatim>\<open>resources/read\<close> request whose uri is not one of the
  known resource uris, the handler throws nothing to the SDK, so no JSON-RPC error is
  sent: it returns an ordinary result with one contents entry that echoes the uri, has
  the mime type \<^verbatim>\<open>application/json\<close>, and whose text is the JSON of the message
  \<^verbatim>\<open>Unknown resource: <uri>\<close> and a fixed detail line. The handler has no access to the
  session registry. The POST that carries the request to a registered session constructs
  no transport and leaves that session registered, unless the SDK's transport closes
  while it handles the request; when the transport also announces no new session, the
  whole registry is as it was.
\<close>

theorem resources_read_unknown_uri_is_a_result:
  "(u \<notin> set listed_resource_uris \<longrightarrow>
     ReadResourceRequest_handler sf pc cfg u
       = Inr \<lparr>contents =
           [\<lparr>uri = u, mimeType = ''application/json'',
             rtext = sf (JObj [(''error'', JPrim (JStr (''Unknown resource: '' @ u))),
                       (''details'', JPrim (JStr ''Failed to fetch resource.''))])\<rparr>]\<rparr>)
   \<and> (req_headers req ''mcp-session-id'' = Some sid \<and> sid \<noteq> [] \<and> ts sid = Some t
        \<and> \<not> sdk_closed (sdk t req)
      \<longrightarrow> registry_after (postMcp sdk ts req) sid \<noteq> None
          \<and> created (postMcp sdk ts req) = None)
   \<and> (req_headers req ''mcp-session-id'' = Some sid \<and> sid \<noteq> [] \<and> ts sid = Some t
        \<and> \<not> sdk_closed (sdk t req) \<and> sdk_initialized (sdk t req) = None
      \<longrightarrow> registry_after (postMcp sdk ts req) = ts)"
proof (intro conjI impI)
  assume "u \<notin> set listed_resource_uris"
  then show "ReadResourceRequest_handler sf pc cfg u
       = Inr \<lparr>contents =
           [\<lparr>uri = u, mimeType = ''application/json'',
             rtext = sf (JObj [(''error'', JPrim (JStr (''Unknown resource: '' @ u))),
                       (''details'', JPrim (JStr ''Failed to fetch resource.''))])\<rparr>]\<rparr>"
    by (simp add: ReadResourceRequest_handler_def readResource_try_def resource_error_def
        listed_resource_uris_def)
next
  assume a: "req_headers req ''mcp-session-id'' = Some sid \<and> sid \<noteq> [] \<and> ts sid = Some t
        \<and> \<not> sdk_closed (sdk t req)"
  then have own: "session_transport ts (Some sid) = Own t"
    by (simp add: session_transport_registered)
  from a show "registry_after (postMcp sdk ts req) sid \<noteq> None"
    by (simp add: postMcp_def Let_def own after_sdk_keeps_session)
  from a show "created (postMcp sdk ts req) = None"
    by (simp add: postMcp_def Let_def own)
next
  assume a: "req_headers req ''mcp-session-id'' = Some sid \<and> sid \<noteq> [] \<and> ts sid = Some t
        \<and> \<not> sdk_closed (sdk t req) \<and> sdk_initialized (sdk t req) = None"
  then have own: "session_transport ts (Some sid) = Own t"
    by (simp add: session_transport_registered)
  from a show "registry_after (postMcp sdk ts req) = ts"
    by (simp add: postMcp_def Let_def own after_sdk_unchanged)
qed

text \<open>
  The theorem at the uri \<^verbatim>\<open>pods://nope\<close>, and at the POST that carries the request for
  it to the registered session \<^verbatim>\<open>s1\<close>.
\<close>

theorem resources_read_unknown_uri_witness:
  "''pods://nope'' \<notin> set listed_resource_uris
   \<and> ReadResourceRequest_handler braces failing_adapter keyed_config ''pods://nope''
       = Inr \<lparr>contents =
           [\<lparr>uri = ''pods://nope'', mimeType = ''application/json'',
             rtext = braces (JObj [(''error'', JPrim (JStr ''Unknown resource: pods://nope'')),
                       (''details'', JPrim (JStr ''Failed to fetch resource.''))])\<rparr>]\<rparr>
   \<and> req_headers (request_to POST ''/CiscoMCPPods/mcp'' [''mcp-session-id'' \<mapsto> ''s1''] read_nope)
        ''mcp-session-id'' = Some ''s1''
   \<and> [''s1'' \<mapsto> session_s1] ''s1'' = Some session_s1
   \<and> \<not> sdk_closed (answering_sdk session_s1
          (request_to POST ''/CiscoMCPPods/mcp'' [''mcp-session-id'' \<mapsto> ''s1''] read_nope))
   \<and> sdk_initialized (answering_sdk session_s1
          (request_to POST ''/CiscoMCPPods/mcp'' [''mcp-session-id'' \<mapsto> ''s1''] read_nope)) = None
   \<and> registry_after (postMcp answering_sdk [''s1'' \<mapsto> session_s1]
          (request_to POST ''/CiscoMCPPods/mcp'' [''mcp-session-id'' \<mapsto> ''s1''] read_nope)) ''s1''
       \<noteq> None
   \<and> registry_after (postMcp answering_sdk [''s1'' \<mapsto> session_s1]
          (request_to POST ''/CiscoMCPPods/mcp'' [''mcp-session-id'' \<mapsto> ''s1''] read_nope))
       = [''s1'' \<mapsto> session_s1]"
  using resources_read_unknown_uri_is_a_result
      [where u = "''pods://nope''" and sf = braces and pc = failing_adapter and cfg = keyed_config
         and req = "request_to POST ''/CiscoMCPPods/mcp'' [''mcp-session-id'' \<mapsto> ''s1''] read_nope"
         and sid = "''s1''" and ts = "[''s1'' \<mapsto> session_s1]" and t = session_s1
         and sdk = answering_sdk]
  by (simp add: listed_resource_uris_def)

text \<open>
  C6 as stated fails at the uri \<^verbatim>\<open>pods://nope\<close>: the handler does not throw (its outcome
  is not an \<open>Inl\<close>, which is what the SDK would send as a JSON-RPC error); it returns a
  contents entry.
\<close>

theorem resources_read_unknown_uri_counterexample:
  "\<not> isl (ReadResourceRequest_handler braces failing_adapter keyed_config ''pods://nope'')
   \<and> ReadResourceRequest_handler braces failing_adapter keyed_config ''pods://nope''
       = Inr \<lparr>contents =
           [\<lparr>uri = ''pods://nope'', mimeType = ''application/json'', rtext = ''{}''\<rparr>]\<rparr>"
  by (simp add: ReadResourceRequest_handler_def readResource_try_def resource_error_def)

section \<open>Requests to the MCP endpoint\<close>

lemma session_transport_Absent:
  "session_transport ts h = Absent \<longleftrightarrow>
     \<not> truthy_header h \<or> (\<exists>s. h = Some s \<and> ts s = None \<and> s \<notin> set object_prototype_names)"
  by (cases h) (auto simp: session_transport_def transports_at_def split: option.splits)

lemma session_transport_falsy: "\<not> truthy_header h \<Longrightarrow> session_transport ts h = Absent"
  by (simp add: session_transport_Absent)

lemma session_transport_Own: "session_transport ts h = Own t \<Longrightarrow> truthy_header h"
  by (cases h) (auto simp: session_transport_def split: if_splits)

lemma session_transport_Own_in: "session_transport ts h = Own t \<Longrightarrow> \<exists>s. ts s = Some t"
  by (cases h) (auto simp: session_transport_def transports_at_def split: if_splits option.splits)

text \<open>
  A POST constructs a transport exactly when it carries no session id (the header is
  not sent, or is empty) and its body passes \<open>isInitializeRequest\<close>.
\<close>

lemma postMcp_created:
  "created (postMcp sdk ts req) =
     (if \<not> truthy_header (req_headers req ''mcp-session-id'') \<and> isInitializeRequest (req_body req)
      then Some new_transport else None)"
  by (auto simp: postMcp_def Let_def session_transport_falsy
      split: property.splits dest: session_transport_Own)

text \<open>
  C1 fails on the code at a session id that names a member every object inherits. A
  POST with the header \<^verbatim>\<open>Mcp-Session-Id: constructor\<close>, to a server whose registry is
  empty, carries a session id that is not in the registry; the claim has it rejected
  with 400 and the code -32000. The handler reads \<^verbatim>\<open>transports['constructor']\<close>, finds the
  inherited \<^verbatim>\<open>Object\<close> function, takes it for a transport, fails to call its
  \<^verbatim>\<open>handleRequest\<close>, and answers from its \<^verbatim>\<open>catch\<close> block: 500 with the code -32603. No
  transport is constructed and the registry is unchanged.
\<close>

theorem postMcp_inherited_name_internal_error:
  "response (postMcp sdk Map.empty
       (request_to POST ''/CiscoMCPPods/mcp'' [''mcp-session-id'' \<mapsto> ''constructor''] b))
     = Some \<lparr>status = 500, body = JsonRpcError (- 32603) ''Internal server error''\<rparr>
   \<and> response (postMcp sdk Map.empty
       (request_to POST ''/CiscoMCPPods/mcp'' [''mcp-session-id'' \<mapsto> ''constructor''] b))
     \<noteq> Some \<lparr>status = 400,
          body = JsonRpcError (- 32000) ''Bad Request: No valid session ID provided''\<rparr>
   \<and> created (postMcp sdk Map.empty
       (request_to POST ''/CiscoMCPPods/mcp'' [''mcp-session-id'' \<mapsto> ''constructor''] b)) = None
   \<and> registry_after (postMcp sdk Map.empty
       (request_to POST ''/CiscoMCPPods/mcp'' [''mcp-session-id'' \<mapsto> ''constructor''] b)) = Map.empty"
  by (simp add: postMcp_def session_transport_def transports_at_def object_prototype_names_def
      internal_error_def)

text \<open>
  C5, as amended. Take a request to the MCP endpoint whose session id is missing (the
  header is not sent, or is empty), or is neither registered nor the name of a member
  that every object inherits. A POST of it, unless it is the session-creating one (no
  session id and an \<^verbatim>\<open>initialize\<close> body), is answered 400 with the JSON-RPC error code
  -32000. A GET or a DELETE of it is answered 400 with the plain text
  \<^verbatim>\<open>Invalid or missing session ID\<close>, which carries no JSON-RPC error. In each case the
  registry is unchanged and no transport is constructed.
\<close>

theorem missing_or_unknown_session_is_400:
  assumes "\<not> truthy_header (req_headers req ''mcp-session-id'')
     \<or> (req_headers req ''mcp-session-id'' = Some s \<and> ts s = None
          \<and> s \<notin> set object_prototype_names)"
  shows "(truthy_header (req_headers req ''mcp-session-id'') \<or> \<not> isInitializeRequest (req_body req)
           \<longrightarrow> postMcp sdk ts req
             = \<lparr>response = Some \<lparr>status = 400,
                   body = JsonRpcError (- 32000) ''Bad Request: No valid session ID provided''\<rparr>,
                registry_after = ts, created = None, unhandled = False\<rparr>)
    \<and> getMcp sdk ts req
        = \<lparr>response = Some \<lparr>status = 400, body = PlainText ''Invalid or missing session ID''\<rparr>,
           registry_after = ts, created = None, unhandled = False\<rparr>
    \<and> deleteMcp sdk ts req
        = \<lparr>response = Some \<lparr>status = 400, body = PlainText ''Invalid or missing session ID''\<rparr>,
           registry_after = ts, created = None, unhandled = False\<rparr>"
proof -
  from assms have "session_transport ts (req_headers req ''mcp-session-id'') = Absent"
    by (auto simp: session_transport_Absent)
  then show ?thesis
    by (auto simp: postMcp_def getMcp_def deleteMcp_def Let_def bad_request_def invalid_session_def)
qed

text \<open>
  The theorem at a POST and a DELETE with the unknown session id \<^verbatim>\<open>no-such-session\<close>,
  and at a GET and a POST with no session id, none of them an \<^verbatim>\<open>initialize\<close>.
\<close>

theorem missing_or_unknown_session_witness:
  "(Map.empty :: registry) ''no-such-session'' = None
   \<and> ''no-such-session'' \<notin> set object_prototype_names
   \<and> \<not> isInitializeRequest (JObj [])
   \<and> response (postMcp quiet_sdk Map.empty
         (request_to POST ''/CiscoMCPPods/mcp'' [''mcp-session-id'' \<mapsto> ''no-such-session''] (JObj [])))
       = Some \<lparr>status = 400,
           body = JsonRpcError (- 32000) ''Bad Request: No valid session ID provided''\<rparr>
   \<and> \<not> truthy_header (req_headers (request_to POST ''/CiscoMCPPods/mcp'' Map.empty (JObj []))
         ''mcp-session-id'')
   \<and> response (postMcp quiet_sdk Map.empty (request_to POST ''/CiscoMCPPods/mcp'' Map.empty (JObj [])))
       = Some \<lparr>status = 400,
           body = JsonRpcError (- 32000) ''Bad Request: No valid session ID provided''\<rparr>
   \<and> response (getMcp quiet_sdk Map.empty (request_to GET ''/CiscoMCPPods/mcp'' Map.empty (JObj [])))
       = Some \<lparr>status = 400, body = PlainText ''Invalid or missing session ID''\<rparr>
   \<and> response (deleteMcp quiet_sdk Map.empty
         (request_to DELETE ''/CiscoMCPPods/mcp'' [''mcp-session-id'' \<mapsto> ''no-such-session''] (JObj [])))
       = Some \<lparr>status = 400, body = PlainText ''Invalid or missing session ID''\<rparr>"
  using missing_or_unknown_session_is_400
      [of "request_to POST ''/CiscoMCPPods/mcp'' [''mcp-session-id'' \<mapsto> ''no-such-session''] (JObj [])"
          "''no-such-session''" Map.empty quiet_sdk]
    missing_or_unknown_session_is_400
      [of "request_to POST ''/CiscoMCPPods/mcp'' Map.empty (JObj [])" "''no-such-session''"
          Map.empty quiet_sdk]
    missing_or_unknown_session_is_400
      [of "request_to GET ''/CiscoMCPPods/mcp'' Map.empty (JObj [])" "''no-such-session''"
          Map.empty quiet_sdk]
    missing_or_unknown_session_is_400
      [of "request_to DELETE ''/CiscoMCPPods/mcp'' [''mcp-session-id'' \<mapsto> ''no-such-session''] (JObj [])"
          "''no-such-session''" Map.empty quiet_sdk]
  by (simp add: object_prototype_names_def isInitializeRequest_def get_property_def member_def)

text \<open>
  C5 as stated fails on GET and DELETE: a GET with no session id, and a DELETE with an
  unknown one, are answered 400 with a plain text body, not with a JSON-RPC error of
  code -32000.
\<close>

theorem getMcp_plain_text_counterexample:
  "response (getMcp quiet_sdk Map.empty (request_to GET ''/CiscoMCPPods/mcp'' Map.empty (JObj [])))
     = Some \<lparr>status = 400, body = PlainText ''Invalid or missing session ID''\<rparr>
   \<and> body (the (response (deleteMcp quiet_sdk Map.empty
        (request_to DELETE ''/CiscoMCPPods/mcp'' [''mcp-session-id'' \<mapsto> ''no-such-session''] (JObj [])))))
     = PlainText ''Invalid or missing session ID''
   \<and> body (the (response (getMcp quiet_sdk Map.empty
        (request_to GET ''/CiscoMCPPods/mcp'' Map.empty (JObj [])))))
     \<noteq> JsonRpcError (- 32000) ''Bad Request: No valid session ID provided''"
  by (simp add: getMcp_def deleteMcp_def session_transport_def transports_at_def
      object_prototype_names_def invalid_session_def)

section \<open>The response mode of a session\<close>

lemma onclose_preserves:
  "\<forall>sid t. ts sid = Some t \<longrightarrow> enableJsonResponse t \<Longrightarrow>
   onclose ts t0 sid = Some t \<Longrightarrow> enableJsonResponse t"
  by (auto simp: onclose_def split: property.splits option.splits if_splits)

lemma after_sdk_preserves:
  assumes "\<forall>sid t. ts sid = Some t \<longrightarrow> enableJsonResponse t" and "enableJsonResponse t0"
    and "after_sdk ts t0 out sid = Some t"
  shows "enableJsonResponse t"
proof -
  let ?ts1 = "case sdk_initialized out of None \<Rightarrow> ts | Some s \<Rightarrow> onsessioninitialized ts t0 s"
  have inv1: "\<forall>sid t. ?ts1 sid = Some t \<longrightarrow> enableJsonResponse t"
    using assms(1,2) by (auto simp: onsessioninitialized_def split: option.splits if_splits)
  show ?thesis
  proof (cases "sdk_closed out")
    case True
    with assms(3) obtain t1 where "onclose ?ts1 t1 sid = Some t"
      by (auto simp: after_sdk_def Let_def)
    with inv1 show ?thesis by (rule onclose_preserves)
  next
    case False
    with assms(3) have "?ts1 sid = Some t" by (simp add: after_sdk_def Let_def)
    with inv1 show ?thesis by blast
  qed
qed

lemma mcp_endpoint_preserves:
  assumes inv: "\<forall>sid t. ts sid = Some t \<longrightarrow> enableJsonResponse t"
    and "registry_after (mcp_endpoint sdk ts req) sid = Some t"
  shows "enableJsonResponse t"
proof -
  have new: "enableJsonResponse new_transport" by (simp add: new_transport_def)
  have own: "\<And>t0. session_transport ts (req_headers req ''mcp-session-id'') = Own t0
      \<Longrightarrow> enableJsonResponse t0"
    using inv by (blast dest: session_transport_Own_in)
  show ?thesis
  proof (cases "req_verb req")
    case POST
    with assms(2) show ?thesis
      using inv new own
      by (auto simp: mcp_endpoint_def postMcp_def Let_def
          split: property.splits if_splits elim: after_sdk_preserves [rotated 2])
  next
    case GET
    with assms(2) show ?thesis
      using inv own
      by (auto simp: mcp_endpoint_def getMcp_def Let_def
          split: property.splits elim: after_sdk_preserves [rotated 2])
  next
    case DELETE
    with assms(2) show ?thesis
      using inv own
      by (auto simp: mcp_endpoint_def deleteMcp_def Let_def
          split: property.splits elim: after_sdk_preserves [rotated 2])
  qed
qed

lemma serve_preserves:
  "\<forall>sid t. ts sid = Some t \<longrightarrow> enableJsonResponse t \<Longrightarrow>
   serve sdk ts reqs sid = Some t \<Longrightarrow> enableJsonResponse t"
proof (induction reqs arbitrary: ts)
  case Nil
  then show ?case by simp
next
  case (Cons req reqs)
  have "\<forall>sid t. registry_after (mcp_endpoint sdk ts req) sid = Some t \<longrightarrow> enableJsonResponse t"
    using Cons.prems(1) by (blast intro: mcp_endpoint_preserves)
  from Cons.IH [OF this] Cons.prems(2) show ?case by simp
qed

lemma serve_json_flag:
  "serve sdk Map.empty reqs sid = Some t \<Longrightarrow> enableJsonResponse t"
  using serve_preserves [of Map.empty sdk reqs sid t] by simp

lemma caught_json:
  assumes "honours_json_mode sdk" and "enableJsonResponse t" and "req_verb req = POST"
    and "is_json (body fallback)"
  shows "\<exists>r. caught (sdk t req) fallback = Some r \<and> is_json (body r)"
proof -
  from assms(1-3) have c: "case sdk_sent (sdk t req) of
      None \<Rightarrow> sdk_threw (sdk t req) | Some r \<Rightarrow> is_json (body r)"
    by (simp add: honours_json_mode_def)
  show ?thesis
  proof (cases "sdk_sent (sdk t req)")
    case None
    with c assms(4) show ?thesis by (simp add: caught_def)
  next
    case (Some r)
    with c show ?thesis by (simp add: caught_def)
  qed
qed

lemma postMcp_answers_json:
  assumes inv: "\<forall>sid t. ts sid = Some t \<longrightarrow> enableJsonResponse t"
    and h: "honours_json_mode sdk" and p: "req_verb req = POST"
  shows "\<exists>r. response (postMcp sdk ts req) = Some r \<and> is_json (body r)"
proof (cases "session_transport ts (req_headers req ''mcp-session-id'')")
  case Absent
  have "enableJsonResponse new_transport" by (simp add: new_transport_def)
  from caught_json [OF h this p, of internal_error] Absent show ?thesis
    by (auto simp: postMcp_def Let_def bad_request_def internal_error_def)
next
  case (Own t)
  then have "enableJsonResponse t" using inv by (blast dest: session_transport_Own_in)
  from caught_json [OF h this p, of internal_error] Own show ?thesis
    by (auto simp: postMcp_def Let_def internal_error_def)
next
  case Inherited
  then show ?thesis by (simp add: postMcp_def Let_def internal_error_def)
qed

text \<open>
  C8. Every transport a POST constructs is constructed with \<^verbatim>\<open>enableJsonResponse: true\<close>.
  No handler changes the option afterwards: whatever the SDK does, after any run of POST,
  GET and DELETE requests on a server that started with no session, every transport in
  the registry has the option set. So, with an SDK that honours the response mode as the
  specification describes it, every POST to the endpoint, at any time in such a run, is
  answered with one JSON document and never with a stream that is held open: by the
  SDK's transport in JSON mode, or by the handler itself (the 400 of a request without a
  valid session, the 500 of its \<^verbatim>\<open>catch\<close> block).
\<close>

theorem created_transports_answer_in_json:
  "(created (postMcp sdk ts req) = Some t \<longrightarrow> enableJsonResponse t)
   \<and> (serve sdk Map.empty reqs sid = Some t \<longrightarrow> enableJsonResponse t)
   \<and> (honours_json_mode sdk \<and> req_verb req = POST
      \<longrightarrow> (\<exists>r. response (postMcp sdk (serve sdk Map.empty reqs) req) = Some r \<and> is_json (body r)))"
proof (intro conjI impI)
  assume "created (postMcp sdk ts req) = Some t"
  then show "enableJsonResponse t"
    by (auto simp: postMcp_created new_transport_def split: if_splits)
next
  assume "serve sdk Map.empty reqs sid = Some t"
  then show "enableJsonResponse t" by (rule serve_json_flag)
next
  assume a: "honours_json_mode sdk \<and> req_verb req = POST"
  have "\<forall>sid t. serve sdk Map.empty reqs sid = Some t \<longrightarrow> enableJsonResponse t"
    by (blast intro: serve_json_flag)
  with a show "\<exists>r. response (postMcp sdk (serve sdk Map.empty reqs) req) = Some r \<and> is_json (body r)"
    by (blast intro: postMcp_answers_json)
qed

text \<open>
  The theorem at an \<^verbatim>\<open>initialize\<close> POST without a session id, on a server with no
  session: the POST constructs a transport, the session \<^verbatim>\<open>s1\<close> is registered with it,
  and a later POST to that session is answered with the SDK's JSON document.
\<close>

theorem created_transports_witness:
  "created (postMcp initializing_sdk Map.empty
       (request_to POST ''/CiscoMCPPods/mcp'' Map.empty (JObj [(''method'', JPrim (JStr ''initialize''))])))
     = Some new_transport
   \<and> enableJsonResponse new_transport
   \<and> serve initializing_sdk Map.empty
       [request_to POST ''/CiscoMCPPods/mcp'' Map.empty (JObj [(''method'', JPrim (JStr ''initialize''))])]
       ''s1''
     = Some session_s1
   \<and> enableJsonResponse session_s1
   \<and> honours_json_mode initializing_sdk
   \<and> response (postMcp initializing_sdk
        (serve initializing_sdk Map.empty
          [request_to POST ''/CiscoMCPPods/mcp'' Map.empty (JObj [(''method'', JPrim (JStr ''initialize''))])])
        (request_to POST ''/CiscoMCPPods/mcp'' [''mcp-session-id'' \<mapsto> ''s1''] read_nope))
     = Some \<lparr>status = 200, body = SdkBody ''{}''\<rparr>
   \<and> is_json (SdkBody ''{}'')"
  using created_transports_answer_in_json
      [where sdk = initializing_sdk and ts = Map.empty
         and req = "request_to POST ''/CiscoMCPPods/mcp'' Map.empty
                      (JObj [(''method'', JPrim (JStr ''initialize''))])"
         and t = new_transport
         and reqs = "[request_to POST ''/CiscoMCPPods/mcp'' Map.empty
                      (JObj [(''method'', JPrim (JStr ''initialize''))])]"
         and sid = "''s1''"]
  by (simp add: postMcp_created isInitializeRequest_def get_property_def member_def
      mcp_endpoint_def postMcp_def session_transport_def transports_at_def after_sdk_def
      onsessioninitialized_def new_transport_def honours_json_mode_def caught_def)


section \<open>What makes a POST an initialize request\<close>

text \<open>
  C10. On a parsed object, \<open>isInitializeRequest\<close> holds exactly when the member
  \<^verbatim>\<open>method\<close> is the string \<^verbatim>\<open>initialize\<close>; it gives the same answer on the object and
  on the object stripped of every other member (\<^verbatim>\<open>jsonrpc\<close>, \<^verbatim>\<open>id\<close>, \<^verbatim>\<open>params\<close>); on an
  array or a primitive it fails. So every POST that carries no session id and whose body
  is an object with \<^verbatim>\<open>method: 'initialize'\<close> takes the session-creating branch, whatever
  else the body holds: a new transport is constructed and handed the request, and the
  registry and the response are what the SDK's handling of it gives.
\<close>

theorem isInitializeRequest_reads_only_method:
  "isInitializeRequest (JObj kvs) = (map_of kvs ''method'' = Some (JPrim (JStr ''initialize'')))
   \<and> isInitializeRequest (JObj kvs) = isInitializeRequest (JObj [(''method'', member kvs ''method'')])
   \<and> \<not> isInitializeRequest (JArr xs)
   \<and> \<not> isInitializeRequest (JPrim p)
   \<and> (\<not> truthy_header (req_headers req ''mcp-session-id'') \<and> req_body req = JObj kvs
        \<and> map_of kvs ''method'' = Some (JPrim (JStr ''initialize''))
      \<longrightarrow> created (postMcp sdk ts req) = Some new_transport
          \<and> registry_after (postMcp sdk ts req) = after_sdk ts new_transport (sdk new_transport req)
          \<and> response (postMcp sdk ts req) = caught (sdk new_transport req) internal_error)"
proof -
  have a: "isInitializeRequest (JObj kvs) = (map_of kvs ''method'' = Some (JPrim (JStr ''initialize'')))"
    by (auto simp: isInitializeRequest_def get_property_def member_def split: option.splits)
  have b: "isInitializeRequest (JObj kvs) = isInitializeRequest (JObj [(''method'', member kvs ''method'')])"
    by (simp add: isInitializeRequest_def get_property_def member_def)
  have c: "\<not> isInitializeRequest (JArr xs)" "\<not> isInitializeRequest (JPrim p)"
    by (simp_all add: isInitializeRequest_def get_property_def)
  have d: "\<not> truthy_header (req_headers req ''mcp-session-id'') \<and> req_body req = JObj kvs
        \<and> map_of kvs ''method'' = Some (JPrim (JStr ''initialize''))
      \<longrightarrow> created (postMcp sdk ts req) = Some new_transport
          \<and> registry_after (postMcp sdk ts req) = after_sdk ts new_transport (sdk new_transport req)
          \<and> response (postMcp sdk ts req) = caught (sdk new_transport req) internal_error"
    using a by (auto simp: postMcp_def Let_def session_transport_falsy)
  from a b c d show ?thesis by blast
qed

text \<open>
  The theorem at a body that holds nothing but \<^verbatim>\<open>method: 'initialize'\<close> (no
  \<^verbatim>\<open>jsonrpc\<close>, no \<^verbatim>\<open>id\<close>, no \<^verbatim>\<open>params\<close>), posted without a session id.
\<close>

theorem isInitializeRequest_witness:
  "\<not> truthy_header (req_headers
        (request_to POST ''/CiscoMCPPods/mcp'' Map.empty (JObj [(''method'', JPrim (JStr ''initialize''))]))
        ''mcp-session-id'')
   \<and> map_of [(''method'', JPrim (JStr ''initialize''))] ''method'' = Some (JPrim (JStr ''initialize''))
   \<and> created (postMcp initializing_sdk Map.empty
        (request_to POST ''/CiscoMCPPods/mcp'' Map.empty (JObj [(''method'', JPrim (JStr ''initialize''))])))
      = Some new_transport
   \<and> registry_after (postMcp initializing_sdk Map.empty
        (request_to POST ''/CiscoMCPPods/mcp'' Map.empty (JObj [(''method'', JPrim (JStr ''initialize''))])))
        ''s1''
      = Some (new_transport\<lparr>transport_sessionId := Some ''s1''\<rparr>)"
  using isInitializeRequest_reads_only_method
      [where kvs = "[(''method'', JPrim (JStr ''initialize''))]"
         and req = "request_to POST ''/CiscoMCPPods/mcp'' Map.empty
                      (JObj [(''method'', JPrim (JStr ''initialize''))])"
         and sdk = initializing_sdk and ts = Map.empty]
  by (simp add: after_sdk_def onsessioninitialized_def)

end
